theory Spec2Isabelle
  imports Complex_Main
begin

section \<open>Data model of \<open>utils/unitConversion.ts\<close>\<close>

text \<open>
  The module handles concentrations of heavy metals in water, written in one of four
  units. Numbers are embedded as exact reals: a decimal literal of the source denotes
  its decimal value, and \<open>*\<close>, \<open>/\<close> and the comparisons are the exact ones. The rounding
  of the program's binary64 arithmetic is modelled separately, in the section on
  binary64 below, for the one property that depends on it.

  Strings are sequences of UTF-16 code units, as in the source language; \<open>ascii\<close>
  writes a literal of Basic Latin characters and \<open>mu\<close> is the Greek small letter mu
  (U+03BC), the only other character of the source text.
\<close>

type_synonym jsstring = "nat list"

definition ascii :: "string \<Rightarrow> jsstring" where
  "ascii s = map of_char s"

definition mu :: nat where
  "mu = 956"

datatype Unit = MG_L | PPM | PPB | UG_L

text \<open>The string value of each member of the enumeration.\<close>

definition Unit_value :: "Unit \<Rightarrow> jsstring" where
  "Unit_value u =
     (case u of
        MG_L \<Rightarrow> ascii ''mg/L''
      | PPM \<Rightarrow> ascii ''ppm''
      | PPB \<Rightarrow> ascii ''ppb''
      | UG_L \<Rightarrow> mu # ascii ''g/L'')"

record UnitInfo =
  symbol :: jsstring
  name :: jsstring
  toMgL :: real

fun UNIT_INFO :: "Unit \<Rightarrow> UnitInfo" where
  "UNIT_INFO MG_L =
     \<lparr>symbol = ascii ''mg/L'', name = ascii ''Milligrams per Liter'', toMgL = 1\<rparr>"
| "UNIT_INFO PPM =
     \<lparr>symbol = ascii ''ppm'', name = ascii ''Parts per Million'', toMgL = 1\<rparr>"
| "UNIT_INFO PPB =
     \<lparr>symbol = ascii ''ppb'', name = ascii ''Parts per Billion'', toMgL = 0.001\<rparr>"
| "UNIT_INFO UG_L =
     \<lparr>symbol = mu # ascii ''g/L'', name = ascii ''Micrograms per Liter'', toMgL = 0.001\<rparr>"

text \<open>\<open>Object.values(Unit)\<close>: the members in declaration order.\<close>

definition AVAILABLE_UNITS :: "Unit list" where
  "AVAILABLE_UNITS = [MG_L, PPM, PPB, UG_L]"

text \<open>
  Modelled from the spec: the enumeration \<open>Metal\<close> is declared in \<open>types.ts\<close>, which is
  not among the sources. The spec gives it as a closed set of eight identifiers
  (Pb, As, Hg, Cd, Cr, Ni, Zn, Fe); these are exactly the keys of \<open>TYPICAL_RANGES\<close>
  and of the form state in \<open>SampleInputForm.tsx\<close>.
\<close>

datatype Metal = Pb | As | Hg | Cd | Cr | Ni | Zn | Fe

text \<open>The typical range of each metal in each unit; the fields are \<open>min\<close> and \<open>max\<close>.\<close>

record Range =
  min_range :: real
  max_range :: real

fun TYPICAL_RANGES :: "Metal \<Rightarrow> Unit \<Rightarrow> Range" where
  "TYPICAL_RANGES Pb MG_L = \<lparr>min_range = 0.0001, max_range = 0.1\<rparr>"
| "TYPICAL_RANGES Pb PPM = \<lparr>min_range = 0.0001, max_range = 0.1\<rparr>"
| "TYPICAL_RANGES Pb PPB = \<lparr>min_range = 0.1, max_range = 100\<rparr>"
| "TYPICAL_RANGES Pb UG_L = \<lparr>min_range = 0.1, max_range = 100\<rparr>"
| "TYPICAL_RANGES As MG_L = \<lparr>min_range = 0.0001, max_range = 0.1\<rparr>"
| "TYPICAL_RANGES As PPM = \<lparr>min_range = 0.0001, max_range = 0.1\<rparr>"
| "TYPICAL_RANGES As PPB = \<lparr>min_range = 0.1, max_range = 100\<rparr>"
| "TYPICAL_RANGES As UG_L = \<lparr>min_range = 0.1, max_range = 100\<rparr>"
| "TYPICAL_RANGES Hg MG_L = \<lparr>min_range = 0.00001, max_range = 0.01\<rparr>"
| "TYPICAL_RANGES Hg PPM = \<lparr>min_range = 0.00001, max_range = 0.01\<rparr>"
| "TYPICAL_RANGES Hg PPB = \<lparr>min_range = 0.01, max_range = 10\<rparr>"
| "TYPICAL_RANGES Hg UG_L = \<lparr>min_range = 0.01, max_range = 10\<rparr>"
| "TYPICAL_RANGES Cd MG_L = \<lparr>min_range = 0.0001, max_range = 0.01\<rparr>"
| "TYPICAL_RANGES Cd PPM = \<lparr>min_range = 0.0001, max_range = 0.01\<rparr>"
| "TYPICAL_RANGES Cd PPB = \<lparr>min_range = 0.1, max_range = 10\<rparr>"
| "TYPICAL_RANGES Cd UG_L = \<lparr>min_range = 0.1, max_range = 10\<rparr>"
| "TYPICAL_RANGES Cr MG_L = \<lparr>min_range = 0.001, max_range = 0.5\<rparr>"
| "TYPICAL_RANGES Cr PPM = \<lparr>min_range = 0.001, max_range = 0.5\<rparr>"
| "TYPICAL_RANGES Cr PPB = \<lparr>min_range = 1, max_range = 500\<rparr>"
| "TYPICAL_RANGES Cr UG_L = \<lparr>min_range = 1, max_range = 500\<rparr>"
| "TYPICAL_RANGES Ni MG_L = \<lparr>min_range = 0.001, max_range = 0.2\<rparr>"
| "TYPICAL_RANGES Ni PPM = \<lparr>min_range = 0.001, max_range = 0.2\<rparr>"
| "TYPICAL_RANGES Ni PPB = \<lparr>min_range = 1, max_range = 200\<rparr>"
| "TYPICAL_RANGES Ni UG_L = \<lparr>min_range = 1, max_range = 200\<rparr>"
| "TYPICAL_RANGES Zn MG_L = \<lparr>min_range = 0.01, max_range = 10\<rparr>"
| "TYPICAL_RANGES Zn PPM = \<lparr>min_range = 0.01, max_range = 10\<rparr>"
| "TYPICAL_RANGES Zn PPB = \<lparr>min_range = 10, max_range = 10000\<rparr>"
| "TYPICAL_RANGES Zn UG_L = \<lparr>min_range = 10, max_range = 10000\<rparr>"
| "TYPICAL_RANGES Fe MG_L = \<lparr>min_range = 0.01, max_range = 5\<rparr>"
| "TYPICAL_RANGES Fe PPM = \<lparr>min_range = 0.01, max_range = 5\<rparr>"
| "TYPICAL_RANGES Fe PPB = \<lparr>min_range = 10, max_range = 5000\<rparr>"
| "TYPICAL_RANGES Fe UG_L = \<lparr>min_range = 10, max_range = 5000\<rparr>"

text \<open>The keys of \<open>TYPICAL_RANGES\<close> in the order \<open>Object.values\<close> visits them.\<close>

definition TYPICAL_RANGES_keys :: "Metal list" where
  "TYPICAL_RANGES_keys = [Pb, As, Hg, Cd, Cr, Ni, Zn, Fe]"

text \<open>
  A sample carries an object from metals to numbers. An object is the list of its
  properties; a metal may have no property or a property whose value is \<open>undefined\<close>
  (\<open>None\<close>). \<open>Object.values\<close> lists the values of the properties.
\<close>

record Sample =
  concentrations :: "(Metal \<times> real option) list"

definition Object_values :: "('k \<times> 'v) list \<Rightarrow> 'v list" where
  "Object_values obj = map snd obj"

section \<open>Conversion engine\<close>

definition convertUnit :: "real \<Rightarrow> Unit \<Rightarrow> Unit \<Rightarrow> real" where
  "convertUnit val fromUnit toUnit =
     (if fromUnit = toUnit then val
      else let mgLValue = val * toMgL (UNIT_INFO fromUnit)
           in mgLValue / toMgL (UNIT_INFO toUnit))"

section \<open>Dataset unit detector\<close>

text \<open>The body of the inner loop that collects the values: one property value.\<close>

definition pushPositive :: "real option \<Rightarrow> real list \<Rightarrow> real list" where
  "pushPositive val allValues =
     (case val of
        Some v \<Rightarrow> if v > 0 then allValues @ [v] else allValues
      | None \<Rightarrow> allValues)"

definition collectValues :: "Sample list \<Rightarrow> real list" where
  "collectValues samples =
     fold (\<lambda>sample allValues.
            fold pushPositive (Object_values (concentrations sample)) allValues)
          samples []"

text \<open>The flag \<open>fitsInAnyRange\<close> after the loop over the metals' ranges.\<close>

definition fitsInAnyRange :: "real \<Rightarrow> Unit \<Rightarrow> bool" where
  "fitsInAnyRange val unit =
     fold (\<lambda>metal fits.
            let range = TYPICAL_RANGES metal unit
            in if val \<ge> min_range range \<and> val \<le> max_range range then True else fits)
          TYPICAL_RANGES_keys False"

text \<open>The loop over the units for one value, updating the table of scores.\<close>

definition scoreValue :: "real \<Rightarrow> (Unit \<Rightarrow> nat) \<Rightarrow> Unit \<Rightarrow> nat" where
  "scoreValue val unitScores =
     fold (\<lambda>unit scores.
            if fitsInAnyRange val unit then scores(unit := scores unit + 1) else scores)
          AVAILABLE_UNITS unitScores"

definition unitScores :: "real list \<Rightarrow> Unit \<Rightarrow> nat" where
  "unitScores allValues = fold scoreValue allValues (\<lambda>unit. 0)"

text \<open>The final loop: the running best unit and its score, seeded with \<open>MG_L\<close>.\<close>

definition findBestUnit :: "(Unit \<Rightarrow> nat) \<Rightarrow> Unit" where
  "findBestUnit scores =
     fst (fold (\<lambda>unit (bestUnit, bestScore).
                 if scores unit > bestScore then (unit, scores unit)
                 else (bestUnit, bestScore))
               AVAILABLE_UNITS (MG_L, scores MG_L))"

definition detectUnitForDataset :: "Sample list \<Rightarrow> Unit" where
  "detectUnitForDataset samples =
     (if length samples = 0 then MG_L
      else let allValues = collectValues samples
           in if length allValues = 0 then MG_L
              else findBestUnit (unitScores allValues))"

text \<open>The position of a unit in the enumeration order.\<close>

definition unitPosition :: "Unit \<Rightarrow> nat" where
  "unitPosition u = length (takeWhile (\<lambda>x. x \<noteq> u) AVAILABLE_UNITS)"

section \<open>Unit parser\<close>

text \<open>
  \<open>String.prototype.trim\<close> removes the white space and line terminator code units of
  the language from both ends.
\<close>

definition isWhiteSpace :: "nat \<Rightarrow> bool" where
  "isWhiteSpace c =
     (c \<in> set [9, 10, 11, 12, 13, 32, 160, 5760, 8232, 8233, 8239, 8287, 12288, 65279]
      \<or> (8192 \<le> c \<and> c \<le> 8202))"

definition trim :: "jsstring \<Rightarrow> jsstring" where
  "trim s = rev (dropWhile isWhiteSpace (rev (dropWhile isWhiteSpace s)))"

text \<open>
  \<open>String.prototype.toLowerCase\<close> is the Unicode case mapping of the runtime. It is
  modelled exactly on Basic Latin (A to Z) and on the two characters outside Basic
  Latin whose lower-case form is a Basic Latin letter or mu: the Greek capital letter
  mu (U+039C) and the Kelvin sign (U+212A). Every other code unit is left as it is: the
  lower-case form of such a character still contains a code unit that occurs in no
  property name looked up below, so the outcome of the lookup is the same.
\<close>

definition lowerCaseUnit :: "nat \<Rightarrow> nat" where
  "lowerCaseUnit c =
     (if 65 \<le> c \<and> c \<le> 90 then c + 32
      else if c = 924 then mu
      else if c = 8490 then 107
      else c)"

definition toLowerCase :: "jsstring \<Rightarrow> jsstring" where
  "toLowerCase s = map lowerCaseUnit s"

text \<open>The own properties of the object literal \<open>unitMappings\<close>.\<close>

definition unitMappings :: "(jsstring \<times> Unit) list" where
  "unitMappings =
     [(ascii ''mg/l'', MG_L),
      (ascii ''mgl'', MG_L),
      (ascii ''mg per l'', MG_L),
      (ascii ''mg per liter'', MG_L),
      (ascii ''milligrams per liter'', MG_L),
      (ascii ''ppm'', PPM),
      (ascii ''parts per million'', PPM),
      (ascii ''ppb'', PPB),
      (ascii ''parts per billion'', PPB),
      (mu # ascii ''g/l'', UG_L),
      (ascii ''ug/l'', UG_L),
      (ascii ''ugl'', UG_L),
      (ascii ''micrograms per liter'', UG_L),
      (mu # ascii ''g per l'', UG_L),
      (ascii ''ug per l'', UG_L)]"

text \<open>
  \<open>unitMappings\<close> is an object literal, so its prototype is \<open>Object.prototype\<close>, and the
  read \<open>unitMappings[normalized]\<close> falls back to the properties of the prototype when
  the object has no own property of that name. These are the names \<open>Object.prototype\<close>
  defines; each holds a function, except \<open>__proto__\<close>, whose getter yields
  \<open>Object.prototype\<close> itself.
\<close>

definition Object_prototype_keys :: "jsstring list" where
  "Object_prototype_keys =
     [ascii ''constructor'', ascii ''hasOwnProperty'', ascii ''isPrototypeOf'',
      ascii ''propertyIsEnumerable'', ascii ''toLocaleString'', ascii ''toString'',
      ascii ''valueOf'', ascii ''__proto__'', ascii ''__defineGetter__'',
      ascii ''__defineSetter__'', ascii ''__lookupGetter__'', ascii ''__lookupSetter__'']"

text \<open>
  The values the read can produce: a member of \<open>Unit\<close>, the object or function held by
  the named property of \<open>Object.prototype\<close>, or \<open>undefined\<close>; and \<open>null\<close>, which
  \<open>parseUnit\<close> returns for a falsy value.
\<close>

datatype JSValue = UnitValue Unit | Inherited jsstring | Undefined | Null

definition getProperty :: "(jsstring \<times> Unit) list \<Rightarrow> jsstring \<Rightarrow> JSValue" where
  "getProperty obj key =
     (case map_of obj key of
        Some u \<Rightarrow> UnitValue u
      | None \<Rightarrow> if key \<in> set Object_prototype_keys then Inherited key else Undefined)"

text \<open>Truthiness: a string is truthy unless empty, an object or function always.\<close>

fun truthy :: "JSValue \<Rightarrow> bool" where
  "truthy (UnitValue u) = (Unit_value u \<noteq> [])"
| "truthy (Inherited k) = True"
| "truthy Undefined = False"
| "truthy Null = False"

definition parseUnit :: "jsstring \<Rightarrow> JSValue" where
  "parseUnit unitStr =
     (let normalized = trim (toLowerCase unitStr);
          found = getProperty unitMappings normalized
      in if truthy found then found else Null)"

section \<open>Display-unit advisor\<close>

definition getBestDisplayUnit :: "real \<Rightarrow> Unit \<Rightarrow> Metal \<Rightarrow> Unit" where
  "getBestDisplayUnit val currentUnit metal =
     (let mgLValue = convertUnit val currentUnit MG_L
      in if mgLValue < 0.001
         then (let ppbValue = convertUnit mgLValue MG_L PPB
               in if ppbValue \<ge> 0.1 then PPB else UG_L)
         else (if mgLValue \<ge> 0.001 then MG_L else PPM))"

section \<open>The conversion engine in binary64 arithmetic\<close>

text \<open>
  The numbers of the program are IEEE 754 binary64 values. A finite binary64 value is
  a rational number; an operation returns the exact result rounded to the nearest
  value with a significand of 53 bits, ties going to the even significand. The model
  below is this rounding on the rationals with an unbounded exponent, so overflow to
  infinity and the reduced precision of subnormal results are not part of it.

  \<open>bitlen n\<close> is the number of binary digits of \<open>n\<close>, \<open>pow2 e\<close> is \<open>2\<close> to the power
  \<open>e\<close>, and \<open>exponent x\<close> is, for positive \<open>x\<close>, the \<open>e\<close> with
  \<open>pow2 e \<le> x < pow2 (e + 1)\<close>.
\<close>

function bitlen :: "int \<Rightarrow> int" where
  "bitlen n = (if n \<le> 0 then 0 else 1 + bitlen (n div 2))"
  by pat_completeness auto
termination
  by (relation "measure nat") auto

declare bitlen.simps [simp del]

definition pow2 :: "int \<Rightarrow> rat" where
  "pow2 e = (if e \<ge> 0 then 2 ^ nat e else 1 / 2 ^ nat (- e))"

definition exponent :: "rat \<Rightarrow> int" where
  "exponent x =
     (let (p, q) = quotient_of x;
          d = bitlen p - bitlen q
      in if pow2 d \<le> x then d else d - 1)"

definition roundTiesToEven :: "rat \<Rightarrow> int" where
  "roundTiesToEven m =
     (let n = \<lfloor>m\<rfloor>; r = m - of_int n
      in if r < 1 / 2 then n
         else if r > 1 / 2 then n + 1
         else if even n then n else n + 1)"

definition binary64 :: "rat \<Rightarrow> rat" where
  "binary64 x =
     (if x = 0 then 0
      else let ulp = pow2 (exponent \<bar>x\<bar> - 52)
           in sgn x * of_int (roundTiesToEven (\<bar>x\<bar> / ulp)) * ulp)"

text \<open>
  The factor \<open>toMgL\<close> of a unit as the program holds it: the binary64 value of the
  decimal literal in \<open>UNIT_INFO\<close>.
\<close>

definition toMgL_binary64 :: "Unit \<Rightarrow> rat" where
  "toMgL_binary64 u =
     binary64 (case u of MG_L \<Rightarrow> 1 | PPM \<Rightarrow> 1 | PPB \<Rightarrow> 0.001 | UG_L \<Rightarrow> 0.001)"

text \<open>\<open>convertUnit\<close> with each operation rounded, on a binary64 argument.\<close>

definition convertUnit_binary64 :: "rat \<Rightarrow> Unit \<Rightarrow> Unit \<Rightarrow> rat" where
  "convertUnit_binary64 val fromUnit toUnit =
     (if fromUnit = toUnit then val
      else let mgLValue = binary64 (val * toMgL_binary64 fromUnit)
           in binary64 (mgLValue / toMgL_binary64 toUnit))"

section \<open>The binary64 rounding is a rounding to nearest\<close>

text \<open>
  The rounding function is justified against its description: \<open>exponent\<close> brackets
  its argument between consecutive powers of two, the rounded significand is an
  integer with 53 bits (or \<open>2^53\<close>, which is the next power of two), and the result
  differs from the argument by at most half a unit in the last place.
\<close>

lemma pow2_powi: "pow2 e = 2 powi e"
  by (simp add: pow2_def power_int_def inverse_eq_divide power_one_over)

lemma pow2_pos: "0 < pow2 e"
  by (simp add: pow2_powi)

lemma pow2_add: "pow2 (a + b) = pow2 a * pow2 b"
  by (simp add: pow2_powi power_int_add)

lemma pow2_nat: "pow2 (int n) = 2 ^ n"
  by (simp add: pow2_def)

lemma bitlen_pos: "0 < n \<Longrightarrow> 0 < bitlen n"
proof (induction n rule: bitlen.induct)
  case (1 n)
  show ?case
  proof (cases "n div 2 \<le> 0")
    case True
    then have "bitlen (n div 2) = 0"
      by (simp add: bitlen.simps)
    with "1.prems" show ?thesis
      by (subst bitlen.simps) simp
  next
    case False
    with "1.IH" "1.prems" have "0 < bitlen (n div 2)"
      by simp
    with "1.prems" show ?thesis
      by (subst bitlen.simps) simp
  qed
qed

lemma bitlen_bounds:
  "0 < n \<Longrightarrow> 2 ^ nat (bitlen n - 1) \<le> n \<and> n < 2 ^ nat (bitlen n)"
proof (induction n rule: bitlen.induct)
  case (1 n)
  have unfold: "bitlen n = 1 + bitlen (n div 2)"
    using "1.prems" by (subst bitlen.simps) simp
  show ?case
  proof (cases "n div 2 \<le> 0")
    case True
    then have "bitlen (n div 2) = 0"
      by (simp add: bitlen.simps)
    with unfold have "bitlen n = 1"
      by simp
    moreover from True "1.prems" have "n = 1"
      by linarith
    ultimately show ?thesis
      by simp
  next
    case False
    then have pos: "0 < n div 2"
      by simp
    with "1.IH" "1.prems"
    have IH: "2 ^ nat (bitlen (n div 2) - 1) \<le> n div 2 \<and> n div 2 < 2 ^ nat (bitlen (n div 2))"
      by simp
    have bl: "0 < bitlen (n div 2)"
      using pos by (rule bitlen_pos)
    then have s1: "nat (bitlen n - 1) = Suc (nat (bitlen (n div 2) - 1))"
      by (simp add: unfold nat_diff_distrib')
    have s2: "nat (bitlen n) = Suc (nat (bitlen (n div 2)))"
      using bl by (simp add: unfold nat_add_distrib)
    from IH show ?thesis
      unfolding s1 s2 by (simp; linarith)
  qed
qed

lemma exponent_bounds:
  assumes "0 < x"
  shows "pow2 (exponent x) \<le> x \<and> x < pow2 (exponent x + 1)"
proof -
  obtain p q where pq: "quotient_of x = (p, q)"
    by (cases "quotient_of x")
  then have q: "0 < q"
    by (rule quotient_of_denom_pos)
  have x: "x = of_int p / of_int q"
    using pq by (rule quotient_of_div)
  with assms q have p: "0 < p"
    by (simp add: zero_less_divide_iff)
  let ?d = "bitlen p - bitlen q"
  have bp: "2 ^ nat (bitlen p - 1) \<le> p \<and> p < 2 ^ nat (bitlen p)"
    using p by (rule bitlen_bounds)
  have bq: "2 ^ nat (bitlen q - 1) \<le> q \<and> q < 2 ^ nat (bitlen q)"
    using q by (rule bitlen_bounds)
  have lp: "0 < bitlen p" and lq: "0 < bitlen q"
    using p q by (simp_all add: bitlen_pos)
  have P1: "pow2 (bitlen p - 1) \<le> of_int p"
  proof -
    have "pow2 (bitlen p - 1) = of_int (2 ^ nat (bitlen p - 1))"
      using lp by (simp add: pow2_def)
    also have "\<dots> \<le> of_int p"
      using bp by (simp only: of_int_le_iff)
    finally show ?thesis .
  qed
  have P2: "of_int p < pow2 (bitlen p)"
  proof -
    have "(of_int p :: rat) < of_int (2 ^ nat (bitlen p))"
      using bp by (simp only: of_int_less_iff)
    also have "\<dots> = pow2 (bitlen p)"
      using lp by (simp add: pow2_def)
    finally show ?thesis .
  qed
  have Q1: "pow2 (bitlen q - 1) \<le> of_int q"
  proof -
    have "pow2 (bitlen q - 1) = of_int (2 ^ nat (bitlen q - 1))"
      using lq by (simp add: pow2_def)
    also have "\<dots> \<le> of_int q"
      using bq by (simp only: of_int_le_iff)
    finally show ?thesis .
  qed
  have Q2: "of_int q < pow2 (bitlen q)"
  proof -
    have "(of_int q :: rat) < of_int (2 ^ nat (bitlen q))"
      using bq by (simp only: of_int_less_iff)
    also have "\<dots> = pow2 (bitlen q)"
      using lq by (simp add: pow2_def)
    finally show ?thesis .
  qed
  have qpos: "(0::rat) < of_int q"
    using q by simp
  have lower: "pow2 (?d - 1) \<le> x"
  proof -
    have "pow2 (?d - 1) * of_int q \<le> pow2 (?d - 1) * pow2 (bitlen q)"
      using Q2 pow2_pos [of "?d - 1"] by (simp add: mult_left_mono)
    also have "\<dots> = pow2 (bitlen p - 1)"
      by (simp add: pow2_add [symmetric])
    also have "\<dots> \<le> of_int p"
      by (rule P1)
    finally show ?thesis
      using qpos by (simp add: x pos_le_divide_eq)
  qed
  have upper: "x < pow2 (?d + 1)"
  proof -
    have "of_int p < pow2 (bitlen p)"
      by (rule P2)
    also have "\<dots> = pow2 (?d + 1) * pow2 (bitlen q - 1)"
      by (simp add: pow2_add [symmetric])
    also have "\<dots> \<le> pow2 (?d + 1) * of_int q"
      using Q1 pow2_pos [of "?d + 1"] by (simp add: mult_left_mono)
    finally show ?thesis
      using qpos by (simp add: x pos_divide_less_eq)
  qed
  show ?thesis
  proof (cases "pow2 ?d \<le> x")
    case True
    then have "exponent x = ?d"
      by (simp add: exponent_def pq)
    with True upper show ?thesis
      by simp
  next
    case False
    then have "exponent x = ?d - 1"
      by (simp add: exponent_def pq)
    with False lower show ?thesis
      by simp
  qed
qed

lemma roundTiesToEven_error: "\<bar>of_int (roundTiesToEven m) - m\<bar> \<le> 1 / 2"
proof -
  have "of_int \<lfloor>m\<rfloor> \<le> m" "m < of_int \<lfloor>m\<rfloor> + 1"
    by linarith+
  then show ?thesis
    by (auto simp add: roundTiesToEven_def Let_def abs_le_iff)
qed

lemma roundTiesToEven_mono_int:
  "of_int a \<le> m \<Longrightarrow> a \<le> roundTiesToEven m"
  "m \<le> of_int b \<Longrightarrow> roundTiesToEven m \<le> b"
proof -
  assume "of_int a \<le> m"
  then have "a \<le> \<lfloor>m\<rfloor>"
    by (simp add: le_floor_iff)
  then show "a \<le> roundTiesToEven m"
    by (auto simp add: roundTiesToEven_def Let_def)
next
  assume h: "m \<le> of_int b"
  show "roundTiesToEven m \<le> b"
  proof (cases "m = of_int b")
    case True
    then show ?thesis
      by (simp add: roundTiesToEven_def Let_def)
  next
    case False
    with h have "m < of_int b"
      by simp
    then have "\<lfloor>m\<rfloor> < b"
      by (simp add: floor_less_iff)
    then show ?thesis
      by (auto simp add: roundTiesToEven_def Let_def)
  qed
qed

lemma binary64_error:
  "\<bar>binary64 x - x\<bar> \<le> pow2 (exponent \<bar>x\<bar> - 52) / 2"
proof (cases "x = 0")
  case True
  then show ?thesis
    using pow2_pos [of "exponent 0 - 52"] by (simp add: binary64_def)
next
  case False
  let ?u = "pow2 (exponent \<bar>x\<bar> - 52)"
  let ?r = "roundTiesToEven (\<bar>x\<bar> / ?u)"
  have u: "0 < ?u"
    by (rule pow2_pos)
  have "binary64 x - x = sgn x * (of_int ?r - \<bar>x\<bar> / ?u) * ?u"
    using False u by (simp add: binary64_def Let_def algebra_simps abs_mult_sgn sgn_mult_abs)
  then have "\<bar>binary64 x - x\<bar> = \<bar>of_int ?r - \<bar>x\<bar> / ?u\<bar> * ?u"
    using False u by (simp add: abs_mult abs_sgn_eq)
  also have "\<dots> \<le> (1 / 2) * ?u"
    using roundTiesToEven_error [of "\<bar>x\<bar> / ?u"] u by (simp add: mult_right_mono)
  finally show ?thesis
    by simp
qed

lemma binary64_significand:
  assumes "x \<noteq> 0"
  shows "binary64 x = sgn x * of_int (roundTiesToEven (\<bar>x\<bar> / pow2 (exponent \<bar>x\<bar> - 52)))
                        * pow2 (exponent \<bar>x\<bar> - 52) \<and>
         2 ^ 52 \<le> roundTiesToEven (\<bar>x\<bar> / pow2 (exponent \<bar>x\<bar> - 52)) \<and>
         roundTiesToEven (\<bar>x\<bar> / pow2 (exponent \<bar>x\<bar> - 52)) \<le> 2 ^ 53"
proof -
  let ?e = "exponent \<bar>x\<bar>"
  let ?u = "pow2 (?e - 52)"
  have u: "0 < ?u"
    by (rule pow2_pos)
  from assms have b: "pow2 ?e \<le> \<bar>x\<bar> \<and> \<bar>x\<bar> < pow2 (?e + 1)"
    by (simp add: exponent_bounds)
  have e1: "pow2 ?e = 2 ^ 52 * ?u"
  proof -
    have "pow2 ?e = pow2 (52 + (?e - 52))"
      by simp
    also have "\<dots> = pow2 52 * ?u"
      by (rule pow2_add)
    finally show ?thesis
      by (simp add: pow2_nat [of 52, simplified])
  qed
  have e2: "pow2 (?e + 1) = 2 ^ 53 * ?u"
  proof -
    have "?e + 1 = 53 + (?e - 52)"
      by simp
    then have "pow2 (?e + 1) = pow2 (53 + (?e - 52))"
      by (rule arg_cong)
    also have "\<dots> = pow2 53 * ?u"
      by (rule pow2_add)
    finally show ?thesis
      by (simp add: pow2_nat [of 53, simplified])
  qed
  have "of_int (2 ^ 52) \<le> \<bar>x\<bar> / ?u"
    using b u by (simp add: e1 pos_le_divide_eq)
  then have lo: "2 ^ 52 \<le> roundTiesToEven (\<bar>x\<bar> / ?u)"
    by (rule roundTiesToEven_mono_int)
  have "\<bar>x\<bar> / ?u \<le> of_int (2 ^ 53)"
    using b u by (simp add: e2 pos_divide_le_eq)
  then have hi: "roundTiesToEven (\<bar>x\<bar> / ?u) \<le> 2 ^ 53"
    by (rule roundTiesToEven_mono_int)
  from assms lo hi show ?thesis
    by (simp add: binary64_def Let_def)
qed

text \<open>
  Hence the relative error of one rounding is at most \<open>2^(-53)\<close>, and multiplying by
  a positive factor and dividing by the same factor, each rounded, moves a value by at
  most the relative error \<open>2^(-52) + 2^(-106)\<close>.
\<close>

lemma binary64_relative_error: "\<bar>binary64 y - y\<bar> \<le> \<bar>y\<bar> / 2 ^ 53"
proof (cases "y = 0")
  case True
  then show ?thesis
    by (simp add: binary64_def)
next
  case False
  let ?e = "exponent \<bar>y\<bar>"
  have "pow2 ?e = pow2 (53 + (?e - 53))"
    by simp
  also have "\<dots> = pow2 53 * pow2 (?e - 53)"
    by (rule pow2_add)
  finally have e: "pow2 ?e = 2 ^ 53 * pow2 (?e - 53)"
    by (simp add: pow2_nat [of 53, simplified])
  have "?e - 52 = 1 + (?e - 53)"
    by simp
  then have "pow2 (?e - 52) = pow2 (1 + (?e - 53))"
    by (rule arg_cong)
  also have "\<dots> = pow2 1 * pow2 (?e - 53)"
    by (rule pow2_add)
  finally have u: "pow2 (?e - 52) / 2 = pow2 (?e - 53)"
    by (simp add: pow2_nat [of 1, simplified])
  from False have "pow2 ?e \<le> \<bar>y\<bar>"
    by (simp add: exponent_bounds)
  then have "pow2 (?e - 53) \<le> \<bar>y\<bar> / 2 ^ 53"
    by (simp add: e pos_le_divide_eq mult.commute)
  with binary64_error [of y] show ?thesis
    by (simp only: u)
qed

lemma multiply_divide_error:
  fixes x c :: rat
  assumes c: "0 < c"
  shows "\<bar>binary64 (binary64 (x * c) / c) - x\<bar> \<le> \<bar>x\<bar> * (1 / 2 ^ 52 + 1 / 2 ^ 106)"
proof -
  let ?m = "binary64 (x * c)"
  let ?r = "binary64 (?m / c)"
  let ?eps = "1 / 2 ^ 53 :: rat"
  have m: "\<bar>?m - x * c\<bar> \<le> \<bar>x\<bar> * c * ?eps"
    using binary64_relative_error [of "x * c"] c by (simp add: abs_mult)
  have "?m / c - x = (?m - x * c) / c"
    using c by (simp add: diff_divide_distrib)
  then have "\<bar>?m / c - x\<bar> = \<bar>?m - x * c\<bar> / \<bar>c\<bar>"
    by (simp only: abs_divide)
  also have "\<dots> = \<bar>?m - x * c\<bar> / c"
    using c by (simp only: abs_of_pos)
  also have "\<dots> \<le> (\<bar>x\<bar> * c * ?eps) / c"
    using m c by (simp only: divide_right_mono less_imp_le)
  also have "\<dots> = \<bar>x\<bar> * ?eps"
    using c by simp
  finally have q: "\<bar>?m / c - x\<bar> \<le> \<bar>x\<bar> * ?eps" .
  have "\<bar>?m / c\<bar> \<le> \<bar>?m / c - x\<bar> + \<bar>x\<bar>"
    by linarith
  with q have qa: "\<bar>?m / c\<bar> \<le> \<bar>x\<bar> * ?eps + \<bar>x\<bar>"
    by linarith
  have "\<bar>?r - ?m / c\<bar> \<le> \<bar>?m / c\<bar> * ?eps"
    using binary64_relative_error [of "?m / c"] by simp
  also have "\<dots> \<le> (\<bar>x\<bar> * ?eps + \<bar>x\<bar>) * ?eps"
    using qa by (simp only: mult_right_mono zero_le_divide_1_iff zero_le_power zero_le_numeral)
  finally have r: "\<bar>?r - ?m / c\<bar> \<le> (\<bar>x\<bar> * ?eps + \<bar>x\<bar>) * ?eps" .
  have "\<bar>?r - x\<bar> \<le> \<bar>?r - ?m / c\<bar> + \<bar>?m / c - x\<bar>"
    by linarith
  with r q have "\<bar>?r - x\<bar> \<le> (\<bar>x\<bar> * ?eps + \<bar>x\<bar>) * ?eps + \<bar>x\<bar> * ?eps"
    by linarith
  also have "\<dots> = \<bar>x\<bar> * (1 / 2 ^ 52 + 1 / 2 ^ 106)"
    by (simp add: algebra_simps)
  finally show ?thesis .
qed

section \<open>Properties of the conversion engine\<close>

lemma toMgL_nonzero: "toMgL (UNIT_INFO u) \<noteq> 0"
  by (cases u) simp_all

text \<open>
  Claim C5. Converting a positive value from unit \<open>u1\<close> to unit \<open>u2\<close> and back to \<open>u1\<close>
  recovers the value, in exact arithmetic.
\<close>

theorem convertUnit_round_trip:
  assumes "0 < v"
  shows "convertUnit (convertUnit v u1 u2) u2 u1 = v"
  using toMgL_nonzero [of u1] toMgL_nonzero [of u2]
  by (simp add: convertUnit_def Let_def)

text \<open>The round trip of 80 ppb through mg/L.\<close>

theorem convertUnit_round_trip_witness:
  "(0::real) < 80 \<and> convertUnit (convertUnit 80 PPB MG_L) MG_L PPB = 80"
  using convertUnit_round_trip [of 80 PPB MG_L] by simp

text \<open>
  Claim C9. Every factor \<open>toMgL\<close> of the unit registry is strictly positive; the
  division in \<open>convertUnit\<close> is therefore by a non-zero number for every pair of units,
  and multiplying the result by the target unit's factor gives back the value in mg/L.
\<close>

theorem toMgL_positive:
  "0 < toMgL (UNIT_INFO u) \<and>
   convertUnit v fromUnit toUnit * toMgL (UNIT_INFO toUnit) = v * toMgL (UNIT_INFO fromUnit)"
  using toMgL_nonzero [of toUnit]
  by (cases u) (simp_all add: convertUnit_def Let_def)

subsection \<open>The equivalence pairs, in exact and in binary64 arithmetic\<close>

text \<open>The literals of the binary64 factors are those of the registry.\<close>

lemma toMgL_literal:
  "toMgL (UNIT_INFO u) =
     of_rat (case u of MG_L \<Rightarrow> 1 | PPM \<Rightarrow> 1 | PPB \<Rightarrow> 0.001 | UG_L \<Rightarrow> 0.001)"
  by (cases u) (simp_all add: of_rat_divide of_rat_power)

text \<open>
  The literal \<open>0.001\<close> is held as 1152921504606847 / 2^60, and 1 is held as 1.
\<close>

lemma binary64_one_thousandth: "binary64 0.001 = 1152921504606847 / 2 ^ 60"
  by code_simp

lemma binary64_one: "binary64 1 = 1"
  by code_simp

lemma toMgL_binary64_one: "toMgL_binary64 MG_L = 1 \<and> toMgL_binary64 PPM = 1"
  by (simp add: toMgL_binary64_def binary64_one)

text \<open>The product \<open>1001 * 0.001\<close> as the program holds it, printed 1.0010000000000001.\<close>

lemma binary64_product_1001:
  "binary64 (1001 * toMgL_binary64 PPB) = 4508103226997867 / 2 ^ 52"
  by code_simp

text \<open>The factor of \<open>PPB\<close> and of \<open>UG_L\<close> as the program holds it.\<close>

lemma toMgL_binary64_PPB:
  "toMgL_binary64 PPB = 1152921504606847 / 2 ^ 60 \<and> toMgL_binary64 UG_L = 1152921504606847 / 2 ^ 60"
  using binary64_one_thousandth by (simp add: toMgL_binary64_def)

lemma toMgL_binary64_PPB_pos:
  "0 < toMgL_binary64 PPB \<and> toMgL_binary64 UG_L = toMgL_binary64 PPB"
  using toMgL_binary64_PPB by simp

text \<open>
  The conversion from ppb to \<mu>g/L in binary64 arithmetic returns its argument up to
  the relative error of two roundings.
\<close>

lemma convertUnit_binary64_PPB_UG_L_error:
  "\<bar>convertUnit_binary64 x PPB UG_L - x\<bar> \<le> \<bar>x\<bar> * (1 / 2 ^ 52 + 1 / 2 ^ 106)"
proof -
  let ?c = "toMgL_binary64 PPB"
  have "convertUnit_binary64 x PPB UG_L = binary64 (binary64 (x * ?c) / ?c)"
    using toMgL_binary64_PPB_pos by (simp add: convertUnit_binary64_def Let_def)
  moreover have "0 < ?c"
    using toMgL_binary64_PPB_pos by simp
  ultimately show ?thesis
    by (simp only: multiply_divide_error)
qed

text \<open>
  Claim C4, refuted as stated: 1001 is a binary64 value, 1001 * 0.001 rounds to
  4508103226997867 / 2^52, and dividing that by 0.001 rounds to 1001 + 2^(-43), which
  the program prints as 1001.0000000000001.
\<close>

theorem convertUnit_binary64_PPB_UG_L_inexact:
  "binary64 1001 = 1001 \<and>
   convertUnit_binary64 1001 PPB UG_L = 1001 + 1 / 2 ^ 43 \<and>
   convertUnit_binary64 1001 PPB UG_L \<noteq> 1001"
  by code_simp

text \<open>
  Claim C4, amended. In exact arithmetic \<open>convertUnit v MG_L PPM\<close> and
  \<open>convertUnit v PPB UG_L\<close> both equal \<open>v\<close> for every \<open>v\<close>. In binary64 arithmetic
  \<open>convertUnit v MG_L PPM\<close> still equals \<open>v\<close> for every binary64 value \<open>v\<close>, since both
  factors are 1, while the conversion from ppb to \<mu>g/L returns \<open>v\<close> only up to rounding:
  the result differs from \<open>v\<close> by at most \<open>\<bar>v\<bar> * (2^(-52) + 2^(-106))\<close>.
\<close>

theorem convertUnit_equivalence_pairs:
  "convertUnit v MG_L PPM = v \<and>
   convertUnit v PPB UG_L = v \<and>
   (binary64 x = x \<longrightarrow> convertUnit_binary64 x MG_L PPM = x) \<and>
   \<bar>convertUnit_binary64 x PPB UG_L - x\<bar> \<le> \<bar>x\<bar> * (1 / 2 ^ 52 + 1 / 2 ^ 106)"
proof -
  have "convertUnit v MG_L PPM = v \<and> convertUnit v PPB UG_L = v"
    by (simp add: convertUnit_def Let_def)
  moreover have "binary64 x = x \<longrightarrow> convertUnit_binary64 x MG_L PPM = x"
    by (simp add: convertUnit_binary64_def toMgL_binary64_one Let_def)
  ultimately show ?thesis
    using convertUnit_binary64_PPB_UG_L_error [of x] by blast
qed

text \<open>
  The equivalence pairs at 1001, a binary64 value: the conversion from mg/L to ppm is
  exact, and the conversion from ppb to \<mu>g/L is off by \<open>2^(-43)\<close>, within the bound.
\<close>

theorem convertUnit_equivalence_pairs_witness:
  "convertUnit 1001 MG_L PPM = 1001 \<and>
   convertUnit 1001 PPB UG_L = 1001 \<and>
   binary64 1001 = 1001 \<and> convertUnit_binary64 1001 MG_L PPM = 1001 \<and>
   convertUnit_binary64 1001 PPB UG_L - 1001 = 1 / 2 ^ 43 \<and>
   \<bar>convertUnit_binary64 1001 PPB UG_L - 1001\<bar> \<le> \<bar>1001\<bar> * (1 / 2 ^ 52 + 1 / 2 ^ 106)"
proof -
  have b: "binary64 1001 = 1001"
    by code_simp
  have d: "convertUnit_binary64 1001 PPB UG_L - 1001 = 1 / 2 ^ 43"
    by code_simp
  from b d convertUnit_equivalence_pairs [of 1001 1001] show ?thesis
    by simp
qed

section \<open>Properties of the display-unit advisor\<close>

text \<open>
  Claim C8. The metal passed to \<open>getBestDisplayUnit\<close> has no influence on the result.
\<close>

theorem getBestDisplayUnit_metal_irrelevant:
  "getBestDisplayUnit v u m1 = getBestDisplayUnit v u m2"
  by (simp add: getBestDisplayUnit_def)

text \<open>
  Claim C1, refuted as stated: a value of 0.00005 mg/L is below 0.001, its magnitude
  in ppb is 0.05, which is below 0.1, and the advisor answers \<open>UG_L\<close>.
\<close>

theorem getBestDisplayUnit_returns_UG_L:
  "getBestDisplayUnit 0.00005 MG_L Pb = UG_L"
  by (simp add: getBestDisplayUnit_def convertUnit_def Let_def)

text \<open>
  Claim C1, amended. For every real value, unit and metal the advisor never answers
  \<open>PPM\<close>. With \<open>m\<close> the value in mg/L, it answers \<open>MG_L\<close> exactly when \<open>m \<ge> 0.001\<close>,
  \<open>PPB\<close> exactly when \<open>m < 0.001\<close> and the magnitude of \<open>m\<close> in ppb is at least 0.1,
  that is when \<open>0.0001 \<le> m < 0.001\<close>, and \<open>UG_L\<close> exactly when \<open>m < 0.0001\<close>.
\<close>

theorem getBestDisplayUnit_result:
  "getBestDisplayUnit v u m \<noteq> PPM \<and>
   (getBestDisplayUnit v u m = MG_L) = (0.001 \<le> convertUnit v u MG_L) \<and>
   (getBestDisplayUnit v u m = PPB) =
     (convertUnit v u MG_L < 0.001 \<and> 0.1 \<le> convertUnit (convertUnit v u MG_L) MG_L PPB) \<and>
   (getBestDisplayUnit v u m = PPB) =
     (0.0001 \<le> convertUnit v u MG_L \<and> convertUnit v u MG_L < 0.001) \<and>
   (getBestDisplayUnit v u m = UG_L) = (convertUnit v u MG_L < 0.0001)"
  by (auto simp add: getBestDisplayUnit_def convertUnit_def Let_def)

section \<open>Properties of the dataset unit detector\<close>

subsection \<open>The loops as closed forms\<close>

lemma set_fold_pushPositive:
  "set (fold pushPositive xs acc) = set acc \<union> {v. Some v \<in> set xs \<and> 0 < v}"
  by (induction xs arbitrary: acc) (auto simp add: pushPositive_def split: option.splits)

lemma set_fold_samples:
  "set (fold (\<lambda>sample allValues.
              fold pushPositive (Object_values (concentrations sample)) allValues)
            samples acc)
   = set acc \<union>
     {v. 0 < v \<and> (\<exists>s \<in> set samples. Some v \<in> set (Object_values (concentrations s)))}"
  by (induction samples arbitrary: acc) (auto simp add: set_fold_pushPositive)

lemma set_collectValues:
  "set (collectValues samples)
   = {v. 0 < v \<and> (\<exists>s \<in> set samples. Some v \<in> set (Object_values (concentrations s)))}"
  by (simp add: collectValues_def set_fold_samples)

lemma fitsInAnyRange_iff:
  "fitsInAnyRange v u =
     (\<exists>m. min_range (TYPICAL_RANGES m u) \<le> v \<and> v \<le> max_range (TYPICAL_RANGES m u))"
proof -
  have all: "\<And>P. (\<exists>m. P m) = (P Pb \<or> P As \<or> P Hg \<or> P Cd \<or> P Cr \<or> P Ni \<or> P Zn \<or> P Fe)"
    by (metis Metal.exhaust)
  show ?thesis
    unfolding all by (simp add: fitsInAnyRange_def TYPICAL_RANGES_keys_def Let_def)
qed

lemma TYPICAL_RANGES_pairs:
  "TYPICAL_RANGES m MG_L = TYPICAL_RANGES m PPM \<and> TYPICAL_RANGES m PPB = TYPICAL_RANGES m UG_L"
  by (cases m) simp_all

lemma fitsInAnyRange_pairs:
  "fitsInAnyRange v MG_L = fitsInAnyRange v PPM \<and> fitsInAnyRange v PPB = fitsInAnyRange v UG_L"
  by (simp add: fitsInAnyRange_iff TYPICAL_RANGES_pairs)

lemma scoreValue_apply:
  "scoreValue v scores u = scores u + (if fitsInAnyRange v u then 1 else 0)"
  by (cases u) (simp_all add: scoreValue_def AVAILABLE_UNITS_def)

lemma fold_scoreValue:
  "fold scoreValue vs scores u = scores u + length (filter (\<lambda>v. fitsInAnyRange v u) vs)"
proof (induction vs arbitrary: scores)
  case Nil
  show ?case by simp
next
  case (Cons v vs)
  have "fold scoreValue (v # vs) scores u = fold scoreValue vs (scoreValue v scores) u"
    by simp
  also have "\<dots> = scoreValue v scores u + length (filter (\<lambda>v. fitsInAnyRange v u) vs)"
    by (rule Cons.IH)
  also have "\<dots> = scores u + (if fitsInAnyRange v u then 1 else 0)
                 + length (filter (\<lambda>v. fitsInAnyRange v u) vs)"
    by (simp only: scoreValue_apply)
  also have "\<dots> = scores u + length (filter (\<lambda>v. fitsInAnyRange v u) (v # vs))"
    by simp
  finally show ?case .
qed

text \<open>The score of a unit is the number of collected values that fit one of its ranges.\<close>

lemma unitScores_count:
  "unitScores vs u = length (filter (\<lambda>v. fitsInAnyRange v u) vs)"
  by (simp add: unitScores_def fold_scoreValue)

lemma unitScores_pairs:
  "unitScores vs MG_L = unitScores vs PPM \<and> unitScores vs PPB = unitScores vs UG_L"
  by (simp add: unitScores_count fitsInAnyRange_pairs)

lemma findBestUnit_max: "scores u \<le> scores (findBestUnit scores)"
  by (cases u) (simp_all add: findBestUnit_def AVAILABLE_UNITS_def)

lemma findBestUnit_first:
  "scores u = scores (findBestUnit scores) \<Longrightarrow>
   unitPosition (findBestUnit scores) \<le> unitPosition u"
  by (cases u)
     (simp_all add: findBestUnit_def AVAILABLE_UNITS_def unitPosition_def split: if_splits)

lemma findBestUnit_pairs:
  "scores MG_L = scores PPM \<Longrightarrow> scores PPB = scores UG_L \<Longrightarrow>
   findBestUnit scores = (if scores PPB > scores MG_L then PPB else MG_L)"
  by (simp add: findBestUnit_def AVAILABLE_UNITS_def)

text \<open>
  The two early returns agree with the selection: with no value collected every score
  is 0 and the selection keeps its seed \<open>MG_L\<close>.
\<close>

lemma detect_eq_findBestUnit:
  "detectUnitForDataset samples = findBestUnit (unitScores (collectValues samples))"
proof (cases "collectValues samples = []")
  case True
  have "findBestUnit (unitScores []) = MG_L"
    by (simp add: findBestUnit_def unitScores_def AVAILABLE_UNITS_def)
  with True show ?thesis
    by (simp add: detectUnitForDataset_def)
next
  case False
  then have "samples \<noteq> []"
    by (auto simp add: collectValues_def)
  with False show ?thesis
    by (simp add: detectUnitForDataset_def)
qed

lemma fits_50_500:
  assumes "50 \<le> v" "v \<le> 500"
  shows "fitsInAnyRange v PPB" "\<not> fitsInAnyRange v MG_L"
proof -
  have "min_range (TYPICAL_RANGES Cr PPB) \<le> v \<and> v \<le> max_range (TYPICAL_RANGES Cr PPB)"
    using assms by simp
  then show "fitsInAnyRange v PPB"
    unfolding fitsInAnyRange_iff by blast
  show "\<not> fitsInAnyRange v MG_L"
    using assms by (simp add: fitsInAnyRange_def TYPICAL_RANGES_keys_def Let_def)
qed

lemmas detect_eval =
  detectUnitForDataset_def collectValues_def pushPositive_def Object_values_def
  unitScores_def scoreValue_def fitsInAnyRange_def TYPICAL_RANGES_keys_def
  AVAILABLE_UNITS_def findBestUnit_def unitPosition_def Let_def

subsection \<open>The claims on the detector\<close>

text \<open>
  Claim C10. For every metal the ranges of \<open>MG_L\<close> and \<open>PPM\<close> are the same, and so are
  those of \<open>PPB\<close> and \<open>UG_L\<close>; the scores are therefore equal in pairs, and for every
  list of samples the detector answers \<open>MG_L\<close> or \<open>PPB\<close>, never \<open>PPM\<close> or \<open>UG_L\<close>.
\<close>

theorem detect_MG_L_or_PPB:
  "TYPICAL_RANGES m MG_L = TYPICAL_RANGES m PPM \<and>
   TYPICAL_RANGES m PPB = TYPICAL_RANGES m UG_L \<and>
   unitScores (collectValues samples) MG_L = unitScores (collectValues samples) PPM \<and>
   unitScores (collectValues samples) PPB = unitScores (collectValues samples) UG_L \<and>
   (detectUnitForDataset samples = MG_L \<or> detectUnitForDataset samples = PPB)"
  using unitScores_pairs [of "collectValues samples"]
  by (simp add: TYPICAL_RANGES_pairs detect_eq_findBestUnit findBestUnit_pairs)

text \<open>
  Claim C3. The detector answers the selection over the scores of the collected
  values. For every table of scores the selected unit has the maximal score, and every
  unit with the same score comes no earlier in the enumeration order: among the units
  that share the maximal score the earliest is returned.
\<close>

theorem detect_tie_break:
  "detectUnitForDataset samples = findBestUnit (unitScores (collectValues samples)) \<and>
   (\<forall>u. scores u \<le> scores (findBestUnit scores)) \<and>
   (\<forall>u. scores u = scores (findBestUnit scores) \<longrightarrow>
        unitPosition (findBestUnit scores) \<le> unitPosition u)"
  by (simp add: detect_eq_findBestUnit findBestUnit_max findBestUnit_first)

text \<open>
  For the readings 80, 150 and 300 the units \<open>PPB\<close> and \<open>UG_L\<close> share the maximal
  score 3; \<open>PPB\<close>, the earlier one, is returned.
\<close>

theorem detect_tie_break_witness:
  "unitScores [80, 150, 300] UG_L = unitScores [80, 150, 300] (findBestUnit (unitScores [80, 150, 300])) \<and>
   unitPosition (findBestUnit (unitScores [80, 150, 300])) \<le> unitPosition UG_L \<and>
   findBestUnit (unitScores [80, 150, 300]) = PPB \<and>
   unitScores [80, 150, 300] PPB = 3 \<and> unitScores [80, 150, 300] UG_L = 3 \<and>
   detectUnitForDataset [\<lparr>concentrations = [(Pb, Some 80), (Cr, Some 150), (Zn, Some 300)]\<rparr>] = PPB"
  using detect_tie_break
    [of "[\<lparr>concentrations = [(Pb, Some 80), (Cr, Some 150), (Zn, Some 300)]\<rparr>]"
        "unitScores [80, 150, 300]"]
  by (simp add: detect_eval)

text \<open>
  Claim C6. On the empty list of samples the detector answers \<open>MG_L\<close>, and so it does
  on every list of samples in which each concentration is absent or at most 0.
\<close>

theorem detect_default:
  assumes "\<forall>s \<in> set samples. \<forall>x \<in> set (Object_values (concentrations s)).
             x = None \<or> (\<exists>v. x = Some v \<and> v \<le> 0)"
  shows "detectUnitForDataset [] = MG_L \<and> detectUnitForDataset samples = MG_L"
proof -
  have "set (collectValues samples) = {}"
    unfolding set_collectValues using assms by fastforce
  then have "collectValues samples = []"
    by simp
  then show ?thesis
    by (simp add: detectUnitForDataset_def)
qed

text \<open>Two samples with a zero, a negative and an absent reading.\<close>

theorem detect_default_witness:
  "detectUnitForDataset [] = MG_L \<and>
   detectUnitForDataset
     [\<lparr>concentrations = [(Pb, Some 0), (As, None)]\<rparr>,
      \<lparr>concentrations = [(Hg, Some (- 1))]\<rparr>] = MG_L"
  using detect_default
    [of "[\<lparr>concentrations = [(Pb, Some 0), (As, None)]\<rparr>,
          \<lparr>concentrations = [(Hg, Some (- 1))]\<rparr>]"]
  by (simp add: Object_values_def)

text \<open>
  Claim C2. When the samples hold at least one reading and every reading present lies
  between 50 and 500, the scores of \<open>PPB\<close> and \<open>UG_L\<close> are strictly higher than those of
  \<open>MG_L\<close> and \<open>PPM\<close>, and the detector answers \<open>PPB\<close>.
\<close>

theorem detect_50_500:
  assumes present: "\<exists>s \<in> set samples. \<exists>v. Some v \<in> set (Object_values (concentrations s))"
    and inrange: "\<forall>s \<in> set samples. \<forall>v. Some v \<in> set (Object_values (concentrations s))
                    \<longrightarrow> 50 \<le> v \<and> v \<le> 500"
  shows "unitScores (collectValues samples) MG_L < unitScores (collectValues samples) PPB \<and>
         unitScores (collectValues samples) MG_L < unitScores (collectValues samples) UG_L \<and>
         unitScores (collectValues samples) PPM < unitScores (collectValues samples) PPB \<and>
         unitScores (collectValues samples) PPM < unitScores (collectValues samples) UG_L \<and>
         detectUnitForDataset samples = PPB"
proof -
  let ?vs = "collectValues samples"
  have all: "\<forall>v \<in> set ?vs. 50 \<le> v \<and> v \<le> 500"
    unfolding set_collectValues using inrange by blast
  from present obtain s v
    where "s \<in> set samples" "Some v \<in> set (Object_values (concentrations s))"
    by blast
  moreover from this inrange have "0 < v"
    by fastforce
  ultimately have "v \<in> set ?vs"
    unfolding set_collectValues by blast
  then have ne: "0 < length ?vs"
    by (cases ?vs) auto
  have "filter (\<lambda>v. fitsInAnyRange v PPB) ?vs = ?vs"
    using all by (simp add: fits_50_500 filter_id_conv)
  then have ppb: "unitScores ?vs PPB = length ?vs"
    by (simp add: unitScores_count)
  have "filter (\<lambda>v. fitsInAnyRange v MG_L) ?vs = []"
    using all by (simp add: fits_50_500 filter_empty_conv)
  then have mgl: "unitScores ?vs MG_L = 0"
    by (simp add: unitScores_count)
  have lt: "unitScores ?vs MG_L < unitScores ?vs PPB"
    using ppb mgl ne by simp
  have "detectUnitForDataset samples = PPB"
    using lt unitScores_pairs [of ?vs]
    by (simp add: detect_eq_findBestUnit findBestUnit_pairs)
  with lt unitScores_pairs [of ?vs] show ?thesis
    by simp
qed

text \<open>
  One sample with Pb = 80, Cr = 150 and Zn = 300, the other metals absent: the scores
  are 0 for \<open>MG_L\<close> and \<open>PPM\<close> and 3 for \<open>PPB\<close> and \<open>UG_L\<close>.
\<close>

theorem detect_50_500_witness:
  "collectValues
     [\<lparr>concentrations = [(Pb, Some 80), (As, None), (Cr, Some 150), (Zn, Some 300)]\<rparr>]
     = [80, 150, 300] \<and>
   unitScores [80, 150, 300] MG_L = 0 \<and> unitScores [80, 150, 300] PPM = 0 \<and>
   unitScores [80, 150, 300] PPB = 3 \<and> unitScores [80, 150, 300] UG_L = 3 \<and>
   detectUnitForDataset
     [\<lparr>concentrations = [(Pb, Some 80), (As, None), (Cr, Some 150), (Zn, Some 300)]\<rparr>]
     = PPB"
  using detect_50_500
    [of "[\<lparr>concentrations = [(Pb, Some 80), (As, None), (Cr, Some 150), (Zn, Some 300)]\<rparr>]"]
  by (simp add: detect_eval)

section \<open>Properties of the unit parser\<close>

lemmas parse_eval =
  parseUnit_def getProperty_def Let_def unitMappings_def Object_prototype_keys_def
  trim_def toLowerCase_def lowerCaseUnit_def isWhiteSpace_def ascii_def mu_def
  Unit_value_def

lemma Unit_value_nonempty: "Unit_value u \<noteq> []"
  by (cases u) (simp_all add: Unit_value_def ascii_def)

text \<open>
  A unit is returned exactly when the normalized string is one of the spellings listed
  for that unit.
\<close>

lemma parseUnit_unit_iff:
  "(parseUnit s = UnitValue u) = (map_of unitMappings (trim (toLowerCase s)) = Some u)"
  by (auto simp add: parseUnit_def getProperty_def Let_def Unit_value_nonempty
           split: option.splits)

text \<open>
  \<open>null\<close> is returned exactly when the normalized string is neither a listed spelling
  nor the name of a property of \<open>Object.prototype\<close>.
\<close>

lemma parseUnit_null_iff:
  "(parseUnit s = Null) =
     (map_of unitMappings (trim (toLowerCase s)) = None \<and>
      trim (toLowerCase s) \<notin> set Object_prototype_keys)"
  by (auto simp add: parseUnit_def getProperty_def Let_def Unit_value_nonempty
           split: option.splits)

text \<open>The symbol and the name of every unit of the registry parse back to the unit.\<close>

lemma parseUnit_registry:
  "parseUnit (symbol (UNIT_INFO u)) = UnitValue u \<and>
   parseUnit (name (UNIT_INFO u)) = UnitValue u"
  by (cases u) (simp_all add: parse_eval)

lemma parseUnit_banana: "parseUnit (ascii ''banana'') = Null"
  by (simp add: parse_eval)

lemma parseUnit_case_and_space: "parseUnit (ascii '' Mg Per Liter  '') = UnitValue MG_L"
  by (simp add: parse_eval)

text \<open>
  Claim C7, where the code departs from it: \<open>constructor\<close> is none of the listed
  spellings of any unit, and \<open>parseUnit\<close> returns for it neither a unit nor \<open>null\<close> but
  the function \<open>Object.prototype.constructor\<close>, which the read of the property finds
  on the prototype of \<open>unitMappings\<close>.
\<close>

theorem parseUnit_constructor:
  "map_of unitMappings (trim (toLowerCase (ascii ''constructor''))) = None \<and>
   parseUnit (ascii ''constructor'') = Inherited (ascii ''constructor'') \<and>
   parseUnit (ascii ''constructor'') \<noteq> Null"
  by (simp add: parse_eval)

end
